theory Spec2Isabelle
  imports Complex_Main "HOL-Library.Char_ord" "HOL-Library.Product_Lexorder"
begin

section \<open>Data model (app/models.py)\<close>

text \<open>
  A \<open>datetime.date\<close> is modelled by its proleptic ordinal (\<open>date.toordinal\<close>):
  comparing two dates is comparing their ordinals. A nullable column is an \<open>option\<close>.
  A string is a list of code points below 256. A float is the real number it denotes
  (no infinity, no NaN); what a float operation returns is not fixed here but taken from
  a record of operations, see the distance calculator.
\<close>

type_synonym date = int

record equipment =
  equipment_id :: int
  equipment_name :: string
  camp_name :: string
  region :: "string option"
  status :: string
  next_maintenance_date :: "date option"
  start_date :: "date option"
  end_date :: "date option"

record workshop =
  workshop_id :: string
  camp_name :: string
  location_lat :: "real option"
  location_lon :: "real option"

text \<open>The store read through the session: the rows of the two tables, in query order.\<close>

record db =
  equipment_rows :: "equipment list"
  workshop_rows :: "workshop list"

section \<open>The result envelope built by \<open>check_demand\<close>\<close>

record requested =
  equipment_name :: string
  start_date :: date
  end_date :: date
  quantity :: int

record availability =
  available :: int
  meets_requirement :: bool

record latlon =
  lat :: "real option"
  lon :: "real option"

record ui =
  show_map :: bool
  center :: latlon
  radius_km :: real

record counts =
  ready_to_use :: int
  under_maintenance :: int

record alternative =
  camp_name :: string
  workshop_id :: string
  distance_km :: real
  location :: latlon
  counts :: counts

record demand_result =
  camp_name :: string
  requested :: requested
  availability :: availability
  ui :: ui
  alternatives :: "alternative list"

text \<open>
  The exceptions that leave \<open>check_demand\<close>: \<open>HTTPException(status_code, detail)\<close>, raised
  by the function itself, and the \<open>ValueError\<close> that \<open>math.sqrt\<close> and \<open>math.asin\<close> raise
  outside their domain, which nothing catches.
\<close>

datatype error = HTTPException nat string | ValueError

section \<open>String comparison\<close>

text \<open>
  The \<open>lower\<close> of the store (SQLite): the letters \<open>A\<close> to \<open>Z\<close> are folded, every other
  character is kept.
\<close>

definition lower_char :: "char \<Rightarrow> char" where
  "lower_char c =
     (case map_of (zip ''ABCDEFGHIJKLMNOPQRSTUVWXYZ'' ''abcdefghijklmnopqrstuvwxyz'') c of
        Some l \<Rightarrow> l
      | None \<Rightarrow> c)"

definition lower :: "string \<Rightarrow> string" where
  "lower s = map lower_char s"

text \<open>
  Python's \<open>str.lower\<close> on code points below 256: besides \<open>A\<close> to \<open>Z\<close> it folds the
  letters \<open>0xC0\<close> to \<open>0xDE\<close>, the multiplication sign \<open>0xD7\<close> apart, each onto the code
  point 32 above.
\<close>

definition str_lower_char :: "char \<Rightarrow> char" where
  "str_lower_char c =
     (case map_of
             (zip (''ABCDEFGHIJKLMNOPQRSTUVWXYZ'' @
                   [CHR 0xC0, CHR 0xC1, CHR 0xC2, CHR 0xC3, CHR 0xC4, CHR 0xC5, CHR 0xC6, CHR 0xC7,
                    CHR 0xC8, CHR 0xC9, CHR 0xCA, CHR 0xCB, CHR 0xCC, CHR 0xCD, CHR 0xCE, CHR 0xCF,
                    CHR 0xD0, CHR 0xD1, CHR 0xD2, CHR 0xD3, CHR 0xD4, CHR 0xD5, CHR 0xD6,
                    CHR 0xD8, CHR 0xD9, CHR 0xDA, CHR 0xDB, CHR 0xDC, CHR 0xDD, CHR 0xDE])
                  (''abcdefghijklmnopqrstuvwxyz'' @
                   [CHR 0xE0, CHR 0xE1, CHR 0xE2, CHR 0xE3, CHR 0xE4, CHR 0xE5, CHR 0xE6, CHR 0xE7,
                    CHR 0xE8, CHR 0xE9, CHR 0xEA, CHR 0xEB, CHR 0xEC, CHR 0xED, CHR 0xEE, CHR 0xEF,
                    CHR 0xF0, CHR 0xF1, CHR 0xF2, CHR 0xF3, CHR 0xF4, CHR 0xF5, CHR 0xF6,
                    CHR 0xF8, CHR 0xF9, CHR 0xFA, CHR 0xFB, CHR 0xFC, CHR 0xFD, CHR 0xFE])) c of
        Some l \<Rightarrow> l
      | None \<Rightarrow> c)"

definition str_lower :: "string \<Rightarrow> string" where
  "str_lower s = map str_lower_char s"

text \<open>
  The \<open>LIKE\<close> operator of the store (SQL; the store configured in \<open>app/config.py\<close> is
  SQLite, where no escape character is in force), pattern first: \<open>%\<close> matches any run of
  characters (also the empty one), \<open>_\<close> matches exactly one character, every other
  character matches itself. The whole text has to be consumed.
\<close>

fun like_match :: "string \<Rightarrow> string \<Rightarrow> bool" where
  "like_match [] [] = True"
| "like_match [] (c # cs) = False"
| "like_match (p # ps) [] = (p = CHR ''%'' \<and> like_match ps [])"
| "like_match (p # ps) (c # cs) =
     (if p = CHR ''%'' then like_match ps (c # cs) \<or> like_match (p # ps) cs
      else (p = CHR ''_'' \<or> p = c) \<and> like_match ps cs)"

text \<open>
  \<open>column.ilike(pattern)\<close>, issued as \<open>lower(column) LIKE lower(pattern)\<close>: the column's
  value against the pattern, both lower-cased. In \<open>demand.py\<close> the pattern is always the
  bare string, never wrapped in \<open>%\<close> as the list endpoints of the other routers do.
\<close>

definition ilike :: "string \<Rightarrow> string \<Rightarrow> bool" where
  "ilike col pat = like_match (lower pat) (lower col)"

section \<open>Distance calculator (app/routers/demand.py, \<open>haversine_km\<close>)\<close>

text \<open>
  The float operations that \<open>haversine_km\<close> performs. Each returns a rounded value, and
  the rounding decides whether \<open>math.asin\<close> raises, so the operations are a parameter of
  the model: a statement about \<open>haversine_km F\<close> for every \<open>F\<close> holds of binary64
  arithmetic with the platform's \<open>math\<close> library in particular.
\<close>

record fp =
  fp_add :: "real \<Rightarrow> real \<Rightarrow> real"
  fp_sub :: "real \<Rightarrow> real \<Rightarrow> real"
  fp_mul :: "real \<Rightarrow> real \<Rightarrow> real"
  fp_div :: "real \<Rightarrow> real \<Rightarrow> real"
  fp_pow2 :: "real \<Rightarrow> real"
  math_radians :: "real \<Rightarrow> real"
  math_sin :: "real \<Rightarrow> real"
  math_cos :: "real \<Rightarrow> real"
  math_sqrt :: "real \<Rightarrow> real"
  math_asin :: "real \<Rightarrow> real"

text \<open>The operations without rounding: \<open>fp_pow2\<close> is \<open>x ** 2\<close>.\<close>

definition radians :: "real \<Rightarrow> real" where
  "radians x = x * (pi / 180)"

definition exact_fp :: fp where
  "exact_fp =
     \<lparr> fp_add = (\<lambda>x y. x + y), fp_sub = (\<lambda>x y. x - y), fp_mul = (\<lambda>x y. x * y),
       fp_div = (\<lambda>x y. x / y), fp_pow2 = (\<lambda>x. x\<^sup>2), math_radians = radians,
       math_sin = sin, math_cos = cos, math_sqrt = sqrt, math_asin = arcsin \<rparr>"

text \<open>Lines 16 to 19 of \<open>demand.py\<close>: the value of \<open>a\<close>.\<close>

definition hav_a :: "fp \<Rightarrow> real \<Rightarrow> real \<Rightarrow> real \<Rightarrow> real \<Rightarrow> real" where
  "hav_a F la1 lo1 la2 lo2 =
     (let p1 = math_radians F la1; p2 = math_radians F la2;
          dphi = math_radians F (fp_sub F la2 la1);
          dlmb = math_radians F (fp_sub F lo2 lo1)
      in fp_add F (fp_pow2 F (math_sin F (fp_div F dphi 2)))
           (fp_mul F (fp_mul F (math_cos F p1) (math_cos F p2))
              (fp_pow2 F (math_sin F (fp_div F dlmb 2)))))"

text \<open>
  \<open>None in (lat1, lon1, lat2, lon2)\<close> holds when one of the four is \<open>None\<close>.
  \<open>math.sqrt\<close> raises \<open>ValueError\<close> below 0 and \<open>math.asin\<close> outside \<open>[-1, 1]\<close>.
\<close>

definition haversine_km ::
  "fp \<Rightarrow> real option \<Rightarrow> real option \<Rightarrow> real option \<Rightarrow> real option \<Rightarrow> error + real option" where
  "haversine_km F lat1 lon1 lat2 lon2 =
     (case (lat1, lon1, lat2, lon2) of
        (Some la1, Some lo1, Some la2, Some lo2) \<Rightarrow>
          (let R = 6371;
               a = hav_a F la1 lo1 la2 lo2
           in if a < 0 then Inl ValueError
              else (let s = math_sqrt F a
                    in if s < - 1 \<or> 1 < s then Inl ValueError
                       else Inr (Some (fp_mul F (fp_mul F 2 R) (math_asin F s)))))
      | _ \<Rightarrow> Inr None)"

text \<open>
  What binary64 arithmetic and the \<open>math\<close> library keep of the signs: a difference
  changes sign with its operands, a product does not depend on their order and is 0 when
  one is, halving, \<open>radians\<close> and the sine are odd, the square is even, and 0 is mapped
  to 0 throughout.
\<close>

definition sign_symmetric :: "fp \<Rightarrow> bool" where
  "sign_symmetric F =
     ((\<forall>x y. fp_sub F x y = - fp_sub F y x) \<and>
      (\<forall>x y. fp_mul F x y = fp_mul F y x) \<and>
      (\<forall>x. fp_mul F x 0 = 0) \<and>
      fp_add F 0 0 = 0 \<and>
      (\<forall>x. fp_div F (- x) 2 = - fp_div F x 2) \<and>
      (\<forall>x. math_radians F (- x) = - math_radians F x) \<and>
      (\<forall>x. math_sin F (- x) = - math_sin F x) \<and>
      (\<forall>x. fp_pow2 F (- x) = fp_pow2 F x) \<and>
      fp_pow2 F 0 = 0 \<and> math_sqrt F 0 = 0 \<and> math_asin F 0 = 0)"

text \<open>\<open>round(x, 1)\<close>: to one decimal place, a tie going to the even neighbour.\<close>

definition py_round1 :: "real \<Rightarrow> real" where
  "py_round1 x =
     (let y = x * 10; f = \<lfloor>y\<rfloor>; d = y - of_int f
      in (if d < 1 / 2 then of_int f
          else if d > 1 / 2 then of_int (f + 1)
          else if even f then of_int f else of_int (f + 1)) / 10)"

section \<open>Availability predicate (the closure \<open>is_available\<close> of \<open>check_demand\<close>)\<close>

text \<open>
  The closure reads the request's \<open>start_date\<close> and \<open>end_date\<close>; they are its first two
  arguments here. A date object is always truthy, so \<open>e.start_date and e.end_date\<close>
  holds exactly when both columns are set.
\<close>

definition is_available :: "date \<Rightarrow> date \<Rightarrow> equipment \<Rightarrow> bool" where
  "is_available req_start req_end e =
     (if status e \<noteq> ''ReadyToUse'' then False
      else (case (equipment.start_date e, equipment.end_date e) of
              (Some s, Some t) \<Rightarrow>
                (let overlap = (s \<le> req_end \<and> req_start \<le> t) in \<not> overlap)
            | _ \<Rightarrow> True))"

section \<open>The demand check (app/routers/demand.py, \<open>check_demand\<close>)\<close>

text \<open>
  The parameters \<open>camp_name\<close>, \<open>equipment_name\<close>, \<open>start_date\<close>, \<open>end_date\<close>,
  \<open>quantity\<close> and \<open>radius_km\<close> are written \<open>camp\<close>, \<open>eqn\<close>, \<open>sd\<close>, \<open>ed\<close>, \<open>qty\<close> and
  \<open>rad\<close>, the long names being fields of the records above. The session \<open>db\<close> is the
  store \<open>d\<close>, and \<open>F\<close> holds the float operations.
\<close>

text \<open>
  The query that \<open>check_demand\<close> issues for the home camp (\<open>q_home\<close>) and again for
  every candidate (\<open>eq\<close>): the equipment rows whose camp name and equipment name
  both pass \<open>ilike\<close> against the given strings.
\<close>

definition equipment_query :: "db \<Rightarrow> string \<Rightarrow> string \<Rightarrow> equipment list" where
  "equipment_query d camp eqn =
     filter (\<lambda>e. ilike (equipment.equipment_name e) eqn)
       (filter (\<lambda>e. ilike (equipment.camp_name e) camp) (equipment_rows d))"

text \<open>The inner loop over \<open>eq\<close>, carrying \<open>(ready, maint)\<close>.\<close>

fun count_status :: "date \<Rightarrow> date \<Rightarrow> equipment list \<Rightarrow> int \<times> int \<Rightarrow> int \<times> int" where
  "count_status sd ed [] (ready, maint) = (ready, maint)"
| "count_status sd ed (e # es) (ready, maint) =
     (if status e = ''UnderMaintenance'' then count_status sd ed es (ready, maint + 1)
      else if status e = ''ReadyToUse'' \<and> is_available sd ed e
           then count_status sd ed es (ready + 1, maint)
      else count_status sd ed es (ready, maint))"

text \<open>The dictionary appended for a candidate workshop \<open>ws\<close> at distance \<open>dst\<close> (\<open>dist\<close> in the source).\<close>

definition alt_entry ::
  "db \<Rightarrow> string \<Rightarrow> date \<Rightarrow> date \<Rightarrow> workshop \<Rightarrow> real \<Rightarrow> alternative" where
  "alt_entry d eqn sd ed ws dst =
     (let eq = equipment_query d (workshop.camp_name ws) eqn;
          (ready, maint) = count_status sd ed eq (0, 0)
      in \<lparr> alternative.camp_name = workshop.camp_name ws,
           alternative.workshop_id = workshop.workshop_id ws,
           distance_km = py_round1 dst,
           location = \<lparr> lat = location_lat ws, lon = location_lon ws \<rparr>,
           counts = \<lparr> ready_to_use = ready, under_maintenance = maint \<rparr> \<rparr>)"

text \<open>
  The loop over \<open>all_ws\<close>; each \<open>continue\<close> goes on with the rest and \<open>alts\<close> unchanged,
  and a \<open>ValueError\<close> of \<open>haversine_km\<close> ends the loop. The names are compared after
  \<open>str.lower\<close>.
\<close>

fun build_alts ::
  "fp \<Rightarrow> db \<Rightarrow> workshop \<Rightarrow> string \<Rightarrow> string \<Rightarrow> date \<Rightarrow> date \<Rightarrow> real \<Rightarrow>
   workshop list \<Rightarrow> alternative list \<Rightarrow> error + alternative list" where
  "build_alts F d home_ws camp eqn sd ed rad [] alts = Inr alts"
| "build_alts F d home_ws camp eqn sd ed rad (ws # rest) alts =
     (if str_lower (workshop.camp_name ws) = str_lower camp
      then build_alts F d home_ws camp eqn sd ed rad rest alts
      else (case haversine_km F (location_lat home_ws) (location_lon home_ws)
                   (location_lat ws) (location_lon ws) of
              Inl err \<Rightarrow> Inl err
            | Inr None \<Rightarrow> build_alts F d home_ws camp eqn sd ed rad rest alts
            | Inr (Some dst) \<Rightarrow>
                if dst > rad then build_alts F d home_ws camp eqn sd ed rad rest alts
                else build_alts F d home_ws camp eqn sd ed rad rest
                       (alts @ [alt_entry d eqn sd ed ws dst])))"

text \<open>The sort key \<open>(x["distance_km"], -x["counts"]["ready_to_use"])\<close>; tuples compare
  lexicographically, and \<open>list.sort\<close> is stable, as \<open>sort_key\<close> is.\<close>

definition alt_key :: "alternative \<Rightarrow> real \<times> int" where
  "alt_key x = (distance_km x, - ready_to_use (counts x))"

text \<open>The detail of the 404: \<open>f"Camp '{camp_name}' not found in workshops table"\<close>.\<close>

definition not_found_detail :: "string \<Rightarrow> string" where
  "not_found_detail camp = ''Camp '' @ [CHR 0x27] @ camp @ [CHR 0x27] @ '' not found in workshops table''"

text \<open>The first query: \<open>db.query(Workshop).filter(Workshop.camp_name.ilike(camp_name)).first()\<close>.\<close>

definition find_home_ws :: "db \<Rightarrow> string \<Rightarrow> workshop option" where
  "find_home_ws d camp = find (\<lambda>w. ilike (workshop.camp_name w) camp) (workshop_rows d)"

definition check_demand ::
  "fp \<Rightarrow> db \<Rightarrow> string \<Rightarrow> string \<Rightarrow> date \<Rightarrow> date \<Rightarrow> int \<Rightarrow> real \<Rightarrow> error + demand_result" where
  "check_demand F d camp eqn sd ed qty rad =
     (case find_home_ws d camp of
        None \<Rightarrow> Inl (HTTPException 404 (not_found_detail camp))
      | Some home_ws \<Rightarrow>
          (let q_home = equipment_query d camp eqn;
               home_elems = filter (is_available sd ed) q_home;
               available_home = int (length home_elems);
               meets = (available_home \<ge> qty);
               result =
                 \<lparr> demand_result.camp_name = camp,
                   requested = \<lparr> requested.equipment_name = eqn, requested.start_date = sd,
                                 requested.end_date = ed, quantity = qty \<rparr>,
                   availability = \<lparr> available = available_home, meets_requirement = meets \<rparr>,
                   ui = \<lparr> show_map = \<not> meets,
                          center = \<lparr> lat = location_lat home_ws, lon = location_lon home_ws \<rparr>,
                          radius_km = rad \<rparr>,
                   alternatives = [] \<rparr>
           in if meets then Inr result
              else (let all_ws = workshop_rows d
                    in case build_alts F d home_ws camp eqn sd ed rad all_ws [] of
                         Inl err \<Rightarrow> Inl err
                       | Inr alts \<Rightarrow> Inr (result\<lparr> alternatives := sort_key alt_key alts \<rparr>))))"

text \<open>The value of \<open>available_home\<close>: the rows of \<open>q_home\<close> that are available.\<close>

definition home_count :: "db \<Rightarrow> string \<Rightarrow> string \<Rightarrow> date \<Rightarrow> date \<Rightarrow> int" where
  "home_count d camp eqn sd ed =
     int (length (filter (is_available sd ed) (equipment_query d camp eqn)))"

text \<open>The distance held by an outcome of \<open>haversine_km\<close> that is a known distance.\<close>

definition known_km :: "error + real option \<Rightarrow> real" where
  "known_km x = (case x of Inr (Some dst) \<Rightarrow> dst | _ \<Rightarrow> 0)"

section \<open>The matching and the distance as the specification words them\<close>

text \<open>
  The specification describes the equipment selection as a case-insensitive substring
  test on both names. These definitions follow its words, for comparison with
  \<open>equipment_query\<close>.
\<close>

fun is_prefix :: "string \<Rightarrow> string \<Rightarrow> bool" where
  "is_prefix [] ys = True"
| "is_prefix (x # xs) [] = False"
| "is_prefix (x # xs) (y # ys) = (x = y \<and> is_prefix xs ys)"

fun contains :: "string \<Rightarrow> string \<Rightarrow> bool" where
  "contains [] needle = (needle = [])"
| "contains (c # cs) needle = (is_prefix needle (c # cs) \<or> contains cs needle)"

definition spec_substring_ci :: "string \<Rightarrow> string \<Rightarrow> bool" where
  "spec_substring_ci col needle = contains (lower col) (lower needle)"

definition spec_home_count :: "db \<Rightarrow> string \<Rightarrow> string \<Rightarrow> date \<Rightarrow> date \<Rightarrow> int" where
  "spec_home_count d camp eqn sd ed =
     int (length (filter (\<lambda>e. spec_substring_ci (equipment.camp_name e) camp \<and>
                              spec_substring_ci (equipment.equipment_name e) eqn \<and>
                              is_available sd ed e) (equipment_rows d)))"


text \<open>
  The great-circle distance in kilometres on a sphere of radius 6371: the radius times the
  central angle between the two points, the angle given by the spherical law of cosines.
\<close>

definition great_circle_km :: "real \<Rightarrow> real \<Rightarrow> real \<Rightarrow> real \<Rightarrow> real" where
  "great_circle_km la1 lo1 la2 lo2 =
     6371 * arccos (sin (radians la1) * sin (radians la2) +
                    cos (radians la1) * cos (radians la2) * cos (radians (lo2 - lo1)))"

section \<open>A sample store\<close>

text \<open>
  Five camps. Camp2 and Camp4 share Camp1's coordinates, Camp3 has none, Camp5 lies half
  way round the equator. Camp1 holds two free excavators; Camp2 holds excavators in every
  state; Camp4 holds four free ones.
\<close>

definition mk_equipment ::
  "int \<Rightarrow> string \<Rightarrow> string \<Rightarrow> string \<Rightarrow> date option \<Rightarrow> date option \<Rightarrow> equipment" where
  "mk_equipment i n c st s t =
     \<lparr> equipment_id = i, equipment.equipment_name = n, equipment.camp_name = c, region = None,
       status = st, next_maintenance_date = None,
       equipment.start_date = s, equipment.end_date = t \<rparr>"

definition mk_workshop :: "string \<Rightarrow> string \<Rightarrow> real option \<Rightarrow> real option \<Rightarrow> workshop" where
  "mk_workshop i c la lo =
     \<lparr> workshop.workshop_id = i, workshop.camp_name = c, location_lat = la, location_lon = lo \<rparr>"

definition sample_db :: db where
  "sample_db =
     \<lparr> equipment_rows =
         [ mk_equipment 1 ''Excavator'' ''Camp1'' ''ReadyToUse'' None None,
           mk_equipment 2 ''excavator'' ''CAMP1'' ''ReadyToUse'' (Some 100) None,
           mk_equipment 3 ''Excavator'' ''Camp2'' ''ReadyToUse'' None None,
           mk_equipment 4 ''Excavator'' ''Camp2'' ''ReadyToUse'' (Some 5) (Some 15),
           mk_equipment 5 ''Excavator'' ''Camp2'' ''UnderMaintenance'' (Some 5) (Some 15),
           mk_equipment 6 ''Excavator'' ''Camp2'' ''Allocated'' None None,
           mk_equipment 7 ''Big Excavator'' ''Camp2'' ''ReadyToUse'' None None,
           mk_equipment 8 ''Excavator'' ''Camp4'' ''ReadyToUse'' None None,
           mk_equipment 9 ''Excavator'' ''Camp4'' ''ReadyToUse'' (Some 30) (Some 40),
           mk_equipment 10 ''Excavator'' ''Camp5'' ''ReadyToUse'' None None ],
       workshop_rows =
         [ mk_workshop ''WS_001'' ''Camp1'' (Some 0) (Some 0),
           mk_workshop ''WS_002'' ''Camp2'' (Some 0) (Some 0),
           mk_workshop ''WS_003'' ''Camp3'' None None,
           mk_workshop ''WS_004'' ''Camp4'' (Some 0) (Some 0),
           mk_workshop ''WS_005'' ''Camp5'' (Some 0) (Some 180) ] \<rparr>"

text \<open>The home workshop of a request for \<open>camp1\<close>, and the two entries that request finds.\<close>

definition sample_home :: workshop where
  "sample_home = mk_workshop ''WS_001'' ''Camp1'' (Some 0) (Some 0)"

definition sample_alt_camp4 :: alternative where
  "sample_alt_camp4 =
     \<lparr> alternative.camp_name = ''Camp4'', alternative.workshop_id = ''WS_004'',
       distance_km = 0, location = \<lparr> lat = Some 0, lon = Some 0 \<rparr>,
       counts = \<lparr> ready_to_use = 2, under_maintenance = 0 \<rparr> \<rparr>"

definition sample_alt_camp2 :: alternative where
  "sample_alt_camp2 =
     \<lparr> alternative.camp_name = ''Camp2'', alternative.workshop_id = ''WS_002'',
       distance_km = 0, location = \<lparr> lat = Some 0, lon = Some 0 \<rparr>,
       counts = \<lparr> ready_to_use = 1, under_maintenance = 1 \<rparr> \<rparr>"

text \<open>Five excavators asked of \<open>camp1\<close> for days 10 to 20, radius 15: two at home, unmet.\<close>

definition sample_unmet_result :: demand_result where
  "sample_unmet_result =
     \<lparr> demand_result.camp_name = ''camp1'',
       requested = \<lparr> requested.equipment_name = ''EXCAVATOR'', requested.start_date = 10,
                     requested.end_date = 20, quantity = 5 \<rparr>,
       availability = \<lparr> available = 2, meets_requirement = False \<rparr>,
       ui = \<lparr> show_map = True, center = \<lparr> lat = Some 0, lon = Some 0 \<rparr>, radius_km = 15 \<rparr>,
       alternatives = [sample_alt_camp4, sample_alt_camp2] \<rparr>"

text \<open>The same request for two excavators: met at home.\<close>

definition sample_met_result :: demand_result where
  "sample_met_result =
     \<lparr> demand_result.camp_name = ''camp1'',
       requested = \<lparr> requested.equipment_name = ''EXCAVATOR'', requested.start_date = 10,
                     requested.end_date = 20, quantity = 2 \<rparr>,
       availability = \<lparr> available = 2, meets_requirement = True \<rparr>,
       ui = \<lparr> show_map = False, center = \<lparr> lat = Some 0, lon = Some 0 \<rparr>, radius_km = 15 \<rparr>,
       alternatives = [] \<rparr>"

text \<open>One excavator asked of \<open>Camp3\<close>, whose workshop has no coordinates.\<close>

definition sample_nocoords_result :: demand_result where
  "sample_nocoords_result =
     \<lparr> demand_result.camp_name = ''Camp3'',
       requested = \<lparr> requested.equipment_name = ''Excavator'', requested.start_date = 10,
                     requested.end_date = 20, quantity = 1 \<rparr>,
       availability = \<lparr> available = 0, meets_requirement = False \<rparr>,
       ui = \<lparr> show_map = True, center = \<lparr> lat = None, lon = None \<rparr>, radius_km = 15 \<rparr>,
       alternatives = [] \<rparr>"

text \<open>Two excavators asked of \<open>Camp2\<close> for days 20 to 25.\<close>

definition sample_camp2_result :: demand_result where
  "sample_camp2_result =
     \<lparr> demand_result.camp_name = ''Camp2'',
       requested = \<lparr> requested.equipment_name = ''Excavator'', requested.start_date = 20,
                     requested.end_date = 25, quantity = 2 \<rparr>,
       availability = \<lparr> available = 2, meets_requirement = True \<rparr>,
       ui = \<lparr> show_map = False, center = \<lparr> lat = Some 0, lon = Some 0 \<rparr>, radius_km = 15 \<rparr>,
       alternatives = [] \<rparr>"


text \<open>
  A second store: two workshops whose names differ only in the case of their letters,
  the last one not an ASCII letter (\<open>0xE9\<close> and \<open>0xC9\<close>), and a third with one excavator.
\<close>

definition cafe_db :: db where
  "cafe_db =
     \<lparr> equipment_rows = [ mk_equipment 1 ''Excavator'' ''Bistro'' ''ReadyToUse'' None None ],
       workshop_rows =
         [ mk_workshop ''WS_A'' (''caf'' @ [CHR 0xE9]) (Some 0) (Some 0),
           mk_workshop ''WS_B'' (''CAF'' @ [CHR 0xC9]) (Some 0) (Some 0),
           mk_workshop ''WS_C'' ''Bistro'' (Some 0) (Some 0) ] \<rparr>"

definition cafe_home :: workshop where
  "cafe_home = mk_workshop ''WS_A'' (''caf'' @ [CHR 0xE9]) (Some 0) (Some 0)"

definition cafe_alt_bistro :: alternative where
  "cafe_alt_bistro =
     \<lparr> alternative.camp_name = ''Bistro'', alternative.workshop_id = ''WS_C'',
       distance_km = 0, location = \<lparr> lat = Some 0, lon = Some 0 \<rparr>,
       counts = \<lparr> ready_to_use = 1, under_maintenance = 0 \<rparr> \<rparr>"

definition cafe_result :: demand_result where
  "cafe_result =
     \<lparr> demand_result.camp_name = ''caf'' @ [CHR 0xE9],
       requested = \<lparr> requested.equipment_name = ''Excavator'', requested.start_date = 10,
                     requested.end_date = 20, quantity = 1 \<rparr>,
       availability = \<lparr> available = 0, meets_requirement = False \<rparr>,
       ui = \<lparr> show_map = True, center = \<lparr> lat = Some 0, lon = Some 0 \<rparr>, radius_km = 15 \<rparr>,
       alternatives = [cafe_alt_bistro] \<rparr>"

text \<open>
  Float operations that return, for the near-antipodal pair (61.4775236, -62.1450769) and
  (-61.4775234, 117.8549239), what binary64 arithmetic returns there: the sum \<open>a\<close> is
  \<open>0x1.0000000000002p+0\<close> and its square root \<open>0x1.0000000000001p+0\<close>.
\<close>

definition near_antipode_fp :: fp where
  "near_antipode_fp =
     exact_fp \<lparr> fp_add := (\<lambda>x y. 1 + 1 / 2 ^ 51), math_sqrt := (\<lambda>x. 1 + 1 / 2 ^ 52) \<rparr>"

section \<open>Auxiliary facts\<close>

lemma lower_char_wildcard:
  "(lower_char c = CHR ''%'') = (c = CHR ''%'')"
  "(lower_char c = CHR ''_'') = (c = CHR ''_'')"
  by (simp_all add: lower_char_def)

lemma lower_wildcard_free:
  "CHR ''%'' \<notin> set s \<Longrightarrow> CHR ''_'' \<notin> set s \<Longrightarrow>
   CHR ''%'' \<notin> set (lower s) \<and> CHR ''_'' \<notin> set (lower s)"
proof (induction s)
  case Nil
  then show ?case by (simp add: lower_def)
next
  case (Cons c s)
  then have "c \<noteq> CHR ''%''" "c \<noteq> CHR ''_''"
    by auto
  then have "lower_char c \<noteq> CHR ''%''" "lower_char c \<noteq> CHR ''_''"
    by (simp_all add: lower_char_wildcard)
  with Cons show ?case
    by (auto simp: lower_def)
qed

lemma like_match_plain:
  "CHR ''%'' \<notin> set p \<Longrightarrow> CHR ''_'' \<notin> set p \<Longrightarrow> like_match p s = (s = p)"
  by (induction p s rule: like_match.induct) auto

lemma ilike_plain:
  "CHR ''%'' \<notin> set pat \<Longrightarrow> CHR ''_'' \<notin> set pat \<Longrightarrow>
   ilike col pat = (lower col = lower pat)"
  using lower_wildcard_free [of pat] by (simp add: ilike_def like_match_plain)


lemma build_alts_Inr:
  "build_alts F d hw camp eqn sd ed rad wss alts = Inr out \<Longrightarrow>
   out =
     alts @ map (\<lambda>ws. alt_entry d eqn sd ed ws
                   (known_km (haversine_km F (location_lat hw) (location_lon hw)
                                (location_lat ws) (location_lon ws))))
              (filter (\<lambda>ws. str_lower (workshop.camp_name ws) \<noteq> str_lower camp \<and>
                    (\<exists>dst. haversine_km F (location_lat hw) (location_lon hw)
                             (location_lat ws) (location_lon ws) = Inr (Some dst) \<and> dst \<le> rad))
                 wss)"
proof (induction wss arbitrary: alts)
  case Nil
  then show ?case by simp
next
  case (Cons ws wss)
  show ?case
  proof (cases "str_lower (workshop.camp_name ws) = str_lower camp")
    case True
    with Cons show ?thesis by simp
  next
    case False
    show ?thesis
    proof (cases "haversine_km F (location_lat hw) (location_lon hw)
                    (location_lat ws) (location_lon ws)")
      case (Inl err)
      with Cons.prems False show ?thesis by simp
    next
      case (Inr k)
      show ?thesis
      proof (cases k)
        case None
        with Cons Inr False show ?thesis by simp
      next
        case (Some dst)
        show ?thesis
        proof (cases "dst > rad")
          case True
          with Cons Inr Some False show ?thesis by simp
        next
          case le: False
          with Cons.prems Inr Some False
          have "build_alts F d hw camp eqn sd ed rad wss (alts @ [alt_entry d eqn sd ed ws dst])
                = Inr out"
            by simp
          from Cons.IH [OF this] Inr Some False le show ?thesis
            by (simp add: known_km_def)
        qed
      qed
    qed
  qed
qed

lemma build_alts_no_home_coords:
  assumes "location_lat hw = None \<or> location_lon hw = None"
  shows "build_alts F d hw camp eqn sd ed rad wss alts = Inr alts"
proof -
  have "haversine_km F (location_lat hw) (location_lon hw) la lo = Inr None" for la lo
    using assms by (auto simp: haversine_km_def split: option.splits)
  then show ?thesis
    by (induction wss arbitrary: alts) simp_all
qed

lemma hav_arg_bounds:
  fixes p1 p2 y :: real
  shows "0 \<le> (sin ((p2 - p1) / 2))\<^sup>2 + cos p1 * cos p2 * (sin y)\<^sup>2"
    and "(sin ((p2 - p1) / 2))\<^sup>2 + cos p1 * cos p2 * (sin y)\<^sup>2 \<le> 1"
proof -
  define s where "s = (sin y)\<^sup>2"
  define c where "c = cos (p1 - p2)"
  define e where "e = cos (p1 + p2)"
  define h where "h = (sin ((p2 - p1) / 2))\<^sup>2"
  have s01: "0 \<le> s" "s \<le> 1"
    by (simp_all add: s_def abs_square_le_1)
  have c11: "- 1 \<le> c" "c \<le> 1" and e11: "- 1 \<le> e" "e \<le> 1"
    by (simp_all add: c_def e_def)
  have "cos (2 * ((p2 - p1) / 2)) = 1 - 2 * h"
    unfolding h_def by (rule cos_double_sin)
  moreover have "2 * ((p2 - p1) / 2) = - (p1 - p2)"
    by simp
  ultimately have "c = 1 - 2 * h"
    unfolding c_def by (simp only: cos_minus)
  then have h: "h = (1 - c) / 2"
    by simp
  have cc: "cos p1 * cos p2 = (c + e) / 2"
    unfolding c_def e_def by (rule cos_times_cos)
  have eq: "h + cos p1 * cos p2 * s = (1 - (1 - s) * c + s * e) / 2"
    unfolding h cc by (simp add: field_simps)
  have u1: "(1 - s) * c \<le> (1 - s) * 1"
    using s01 c11 by (intro mult_left_mono) simp_all
  have u2: "(1 - s) * (- 1) \<le> (1 - s) * c"
    using s01 c11 by (intro mult_left_mono) simp_all
  have u3: "s * e \<le> s * 1"
    using s01 e11 by (intro mult_left_mono) simp_all
  have u4: "s * (- 1) \<le> s * e"
    using s01 e11 by (intro mult_left_mono) simp_all
  have "0 \<le> h + cos p1 * cos p2 * s"
    unfolding eq using u1 u3 u4 by simp
  then show "0 \<le> (sin ((p2 - p1) / 2))\<^sup>2 + cos p1 * cos p2 * (sin y)\<^sup>2"
    by (simp only: h_def s_def)
  have "h + cos p1 * cos p2 * s \<le> 1"
    unfolding eq using u2 u3 by simp
  then show "(sin ((p2 - p1) / 2))\<^sup>2 + cos p1 * cos p2 * (sin y)\<^sup>2 \<le> 1"
    by (simp only: h_def s_def)
qed

lemma radians_diff: "radians (x - y) = radians x - radians y"
  by (simp add: radians_def left_diff_distrib)

lemma is_prefix_iff: "is_prefix xs ys = (\<exists>post. ys = xs @ post)"
  by (induction xs ys rule: is_prefix.induct) auto

lemma contains_iff: "contains hay needle = (\<exists>pre post. hay = pre @ needle @ post)"
proof (induction hay)
  case Nil
  then show ?case by auto
next
  case (Cons c cs)
  show ?case
  proof
    assume "contains (c # cs) needle"
    then consider "is_prefix needle (c # cs)" | "contains cs needle"
      by auto
    then show "\<exists>pre post. c # cs = pre @ needle @ post"
    proof cases
      case 1
      then obtain post where "c # cs = [] @ needle @ post"
        by (auto simp: is_prefix_iff)
      then show ?thesis by blast
    next
      case 2
      then obtain pre post where "cs = pre @ needle @ post"
        using Cons.IH by blast
      then have "c # cs = (c # pre) @ needle @ post"
        by simp
      then show ?thesis by blast
    qed
  next
    assume "\<exists>pre post. c # cs = pre @ needle @ post"
    then obtain pre post where e: "c # cs = pre @ needle @ post"
      by blast
    show "contains (c # cs) needle"
    proof (cases pre)
      case Nil
      with e have "is_prefix needle (c # cs)"
        by (auto simp: is_prefix_iff)
      then show ?thesis by simp
    next
      case (Cons p pre')
      with e have "cs = pre' @ needle @ post"
        by simp
      then have "contains cs needle"
        using Cons.IH by blast
      then show ?thesis by simp
    qed
  qed
qed

lemma exact_hav_a:
  "hav_a exact_fp la1 lo1 la2 lo2 =
     (sin ((radians la2 - radians la1) / 2))\<^sup>2 +
     cos (radians la1) * cos (radians la2) * (sin (radians (lo2 - lo1) / 2))\<^sup>2"
  by (simp add: hav_a_def exact_fp_def Let_def radians_diff)

lemma exact_hav_a_bounds: "0 \<le> hav_a exact_fp la1 lo1 la2 lo2" "hav_a exact_fp la1 lo1 la2 lo2 \<le> 1"
  unfolding exact_hav_a by (rule hav_arg_bounds)+

lemma exact_haversine_km:
  "haversine_km exact_fp (Some la1) (Some lo1) (Some la2) (Some lo2) =
     Inr (Some (2 * 6371 * arcsin (sqrt (hav_a exact_fp la1 lo1 la2 lo2))))"
proof -
  have "0 \<le> sqrt (hav_a exact_fp la1 lo1 la2 lo2)" "sqrt (hav_a exact_fp la1 lo1 la2 lo2) \<le> 1"
    using exact_hav_a_bounds [of la1 lo1 la2 lo2] by simp_all
  moreover from this have "- 1 \<le> sqrt (hav_a exact_fp la1 lo1 la2 lo2)"
    by linarith
  moreover have "math_sqrt exact_fp = sqrt" "math_asin exact_fp = arcsin"
      "fp_mul exact_fp = (\<lambda>x y. x * y)"
    by (simp_all add: exact_fp_def)
  ultimately show ?thesis
    using exact_hav_a_bounds(1) [of la1 lo1 la2 lo2]
    by (simp add: haversine_km_def Let_def not_less)
qed

lemma haversine_km_asin_raises:
  assumes "1 < math_sqrt F (hav_a F la1 lo1 la2 lo2)"
  shows "haversine_km F (Some la1) (Some lo1) (Some la2) (Some lo2) = Inl ValueError"
  using assms by (simp add: haversine_km_def Let_def)

lemma two_arcsin_sqrt:
  fixes a :: real
  assumes "0 \<le> a" "a \<le> 1"
  shows "2 * arcsin (sqrt a) = arccos (1 - 2 * a)"
proof -
  define t where "t = arcsin (sqrt a)"
  have s: "0 \<le> sqrt a" "sqrt a \<le> 1"
    using assms by simp_all
  then have m: "- 1 \<le> sqrt a"
    by linarith
  have t0: "0 \<le> t"
    unfolding t_def using s by (simp add: arcsin_nonneg)
  have t1: "t \<le> pi / 2"
    unfolding t_def using m s(2) by (rule arcsin_ubound)
  have "sin t = sqrt a"
    unfolding t_def using m s(2) by (rule sin_arcsin)
  then have "(sin t)\<^sup>2 = a"
    using assms by simp
  then have "cos (2 * t) = 1 - 2 * a"
    by (simp add: cos_double_sin)
  moreover have "arccos (cos (2 * t)) = 2 * t"
    using t0 t1 by (intro arccos_cos) simp_all
  ultimately show ?thesis
    by (simp add: t_def)
qed

lemma exact_hav_a_cosines:
  "1 - 2 * hav_a exact_fp la1 lo1 la2 lo2 =
     sin (radians la1) * sin (radians la2) +
     cos (radians la1) * cos (radians la2) * cos (radians (lo2 - lo1))"
proof -
  define p1 where "p1 = radians la1"
  define p2 where "p2 = radians la2"
  define l where "l = radians (lo2 - lo1)"
  have dbl: "2 * (sin (x / 2))\<^sup>2 = 1 - cos x" for x :: real
  proof -
    have "2 * (x / 2) = x"
      by simp
    with cos_double_sin [of "x / 2"] have "cos x = 1 - 2 * (sin (x / 2))\<^sup>2"
      by (simp only:)
    then show ?thesis
      by simp
  qed
  note h = dbl [of "p2 - p1"] and s = dbl [of l]
  have "1 - 2 * ((sin ((p2 - p1) / 2))\<^sup>2 + cos p1 * cos p2 * (sin (l / 2))\<^sup>2)
      = 1 - 2 * (sin ((p2 - p1) / 2))\<^sup>2 - cos p1 * cos p2 * (2 * (sin (l / 2))\<^sup>2)"
    by (simp add: algebra_simps)
  also have "\<dots> = cos (p2 - p1) - cos p1 * cos p2 * (1 - cos l)"
    unfolding h s by simp
  also have "\<dots> = sin p1 * sin p2 + cos p1 * cos p2 * cos l"
    by (simp add: cos_diff algebra_simps)
  finally show ?thesis
    unfolding exact_hav_a p1_def p2_def l_def .
qed

lemma sign_symmetric_exact: "sign_symmetric exact_fp"
  by (simp add: sign_symmetric_def exact_fp_def radians_def)

lemma sign_symmetric_hav_a:
  assumes "sign_symmetric F"
  shows "hav_a F la1 lo1 la2 lo2 = hav_a F la2 lo2 la1 lo1"
proof -
  from assms have sub: "fp_sub F x y = - fp_sub F y x"
    and com: "fp_mul F x y = fp_mul F y x"
    and odd: "math_radians F (- x) = - math_radians F x" "fp_div F (- x) 2 = - fp_div F x 2"
      "math_sin F (- x) = - math_sin F x"
    and even: "fp_pow2 F (- x) = fp_pow2 F x" for x y
    unfolding sign_symmetric_def by blast+
  have sq: "fp_pow2 F (math_sin F (fp_div F (math_radians F (- x)) 2))
      = fp_pow2 F (math_sin F (fp_div F (math_radians F x) 2))" for x
    by (simp only: odd even)
  show ?thesis
    unfolding hav_a_def Let_def
    by (subst sub [of la2 la1], subst sub [of lo2 lo1], simp only: sq)
       (simp only: com [of "math_cos F (math_radians F la1)"])
qed

lemma sign_symmetric_hav_a_self:
  assumes "sign_symmetric F"
  shows "hav_a F la lo la lo = 0"
proof -
  have "fp_sub F x x = - fp_sub F x x" for x
    using assms unfolding sign_symmetric_def by blast
  then have sub: "fp_sub F x x = 0" for x
    by (simp add: eq_neg_iff_add_eq_0)
  have "math_radians F (- 0) = - math_radians F 0"
    using assms unfolding sign_symmetric_def by blast
  then have rad: "math_radians F 0 = 0"
    by simp
  have "fp_div F (- 0) 2 = - fp_div F 0 2"
    using assms unfolding sign_symmetric_def by blast
  then have dv: "fp_div F 0 2 = 0"
    by simp
  have "math_sin F (- 0) = - math_sin F 0"
    using assms unfolding sign_symmetric_def by blast
  then have sn: "math_sin F 0 = 0"
    by simp
  from assms have rest: "fp_pow2 F 0 = 0" "fp_mul F x 0 = 0" "fp_add F 0 0 = 0" for x
    unfolding sign_symmetric_def by blast+
  show ?thesis
    by (simp add: hav_a_def Let_def sub rad dv sn rest)
qed

lemma check_demand_missing:
  assumes "find_home_ws d camp = None"
  shows "check_demand F d camp eqn sd ed qty rad = Inl (HTTPException 404 (not_found_detail camp))"
  using assms by (simp add: check_demand_def)

lemma check_demand_met:
  assumes "find_home_ws d camp = Some hw" and "qty \<le> home_count d camp eqn sd ed"
  shows "check_demand F d camp eqn sd ed qty rad =
     Inr \<lparr> demand_result.camp_name = camp,
           requested = \<lparr> requested.equipment_name = eqn, requested.start_date = sd,
                         requested.end_date = ed, quantity = qty \<rparr>,
           availability = \<lparr> available = home_count d camp eqn sd ed, meets_requirement = True \<rparr>,
           ui = \<lparr> show_map = False,
                  center = \<lparr> lat = location_lat hw, lon = location_lon hw \<rparr>,
                  radius_km = rad \<rparr>,
           alternatives = [] \<rparr>"
  using assms by (simp add: check_demand_def home_count_def Let_def)

lemma check_demand_unmet:
  assumes "find_home_ws d camp = Some hw" and "\<not> qty \<le> home_count d camp eqn sd ed"
  shows "check_demand F d camp eqn sd ed qty rad =
     (case build_alts F d hw camp eqn sd ed rad (workshop_rows d) [] of
        Inl err \<Rightarrow> Inl err
      | Inr alts \<Rightarrow>
          Inr \<lparr> demand_result.camp_name = camp,
                requested = \<lparr> requested.equipment_name = eqn, requested.start_date = sd,
                              requested.end_date = ed, quantity = qty \<rparr>,
                availability =
                  \<lparr> available = home_count d camp eqn sd ed, meets_requirement = False \<rparr>,
                ui = \<lparr> show_map = True,
                       center = \<lparr> lat = location_lat hw, lon = location_lon hw \<rparr>,
                       radius_km = rad \<rparr>,
                alternatives = sort_key alt_key alts \<rparr>)"
  using assms by (simp add: check_demand_def home_count_def Let_def split: sum.splits)

lemma check_demand_Inr:
  assumes "check_demand F d camp eqn sd ed qty rad = Inr r"
  shows "\<exists>hw. find_home_ws d camp = Some hw \<and>
     demand_result.camp_name r = camp \<and>
     requested r = \<lparr> requested.equipment_name = eqn, requested.start_date = sd,
                      requested.end_date = ed, quantity = qty \<rparr> \<and>
     available (availability r) = home_count d camp eqn sd ed \<and>
     meets_requirement (availability r) = (qty \<le> home_count d camp eqn sd ed) \<and>
     show_map (ui r) = (\<not> qty \<le> home_count d camp eqn sd ed) \<and>
     center (ui r) = \<lparr> lat = location_lat hw, lon = location_lon hw \<rparr> \<and>
     radius_km (ui r) = rad \<and>
     (if qty \<le> home_count d camp eqn sd ed then alternatives r = []
      else \<exists>alts. build_alts F d hw camp eqn sd ed rad (workshop_rows d) [] = Inr alts \<and>
             alternatives r = sort_key alt_key alts)"
proof (cases "find_home_ws d camp")
  case None
  with assms check_demand_missing [OF None, of F eqn sd ed qty rad] show ?thesis
    by simp
next
  case (Some hw)
  show ?thesis
  proof (cases "qty \<le> home_count d camp eqn sd ed")
    case True
    with assms check_demand_met [OF Some True, of F rad] Some show ?thesis
      by auto
  next
    case False
    with assms check_demand_unmet [OF Some False, of F rad] Some show ?thesis
      by (auto split: sum.splits)
  qed
qed



lemma home_count_ilike_eq:
  "home_count d camp eqn sd ed =
     int (length (filter (\<lambda>e. ilike (equipment.camp_name e) camp \<and>
                             ilike (equipment.equipment_name e) eqn \<and>
                             is_available sd ed e) (equipment_rows d)))"
  by (simp add: home_count_def equipment_query_def conj_commute conj_left_commute)


lemma sorted_alt_key_distance:
  "sorted (map alt_key xs) \<Longrightarrow> sorted (map distance_km xs)"
  by (induction xs) (auto simp: alt_key_def less_eq_prod_def)

lemma sorted_alt_key_ties:
  assumes "sorted (map alt_key xs)" "i < j" "j < length xs"
    "distance_km (xs ! i) = distance_km (xs ! j)"
  shows "ready_to_use (counts (xs ! j)) \<le> ready_to_use (counts (xs ! i))"
proof -
  have "map alt_key xs ! i \<le> map alt_key xs ! j"
    using assms by (intro sorted_nth_mono) simp_all
  then have "alt_key (xs ! i) \<le> alt_key (xs ! j)"
    using assms by simp
  with assms(4) show ?thesis
    by (simp add: alt_key_def less_eq_prod_def)
qed

section \<open>The sample stores, evaluated\<close>

lemmas sample_simps =
  sample_db_def mk_workshop_def mk_equipment_def find_home_ws_def ilike_def lower_def
  lower_char_def equipment_query_def is_available_def

lemmas float_simps =
  haversine_km_def hav_a_def exact_fp_def radians_def py_round1_def alt_entry_def alt_key_def
  str_lower_def str_lower_char_def

lemma far_away: "\<not> 6371 * pi \<le> 15"
  using pi_ge_two by simp

lemma sample_find_home: "find_home_ws sample_db ''camp1'' = Some sample_home"
  by (simp add: sample_simps sample_home_def)

lemma sample_find_camp3:
  "find_home_ws sample_db ''Camp3'' = Some (mk_workshop ''WS_003'' ''Camp3'' None None)"
  by (simp add: sample_simps)

lemma sample_find_camp2:
  "find_home_ws sample_db ''Camp2'' = Some (mk_workshop ''WS_002'' ''Camp2'' (Some 0) (Some 0))"
  by (simp add: sample_simps)



lemma sample_unmet:
  "check_demand exact_fp sample_db ''camp1'' ''EXCAVATOR'' 10 20 5 15 = Inr sample_unmet_result"
  using far_away
  by (simp add: check_demand_def sample_simps float_simps sample_unmet_result_def
        sample_alt_camp4_def sample_alt_camp2_def)

lemma sample_unmet_loop:
  "build_alts exact_fp sample_db sample_home ''camp1'' ''EXCAVATOR'' 10 20 15
     (workshop_rows sample_db) [] = Inr [sample_alt_camp2, sample_alt_camp4]"
  using far_away
  by (simp add: sample_simps float_simps sample_home_def sample_alt_camp4_def
        sample_alt_camp2_def)

lemma sample_met:
  "check_demand F sample_db ''camp1'' ''EXCAVATOR'' 10 20 2 15 = Inr sample_met_result"
  by (simp add: check_demand_def sample_simps sample_met_result_def)

lemma sample_nocoords:
  "check_demand F sample_db ''Camp3'' ''Excavator'' 10 20 1 15 = Inr sample_nocoords_result"
  by (simp add: check_demand_def sample_simps haversine_km_def str_lower_def str_lower_char_def
        sample_nocoords_result_def)

lemma sample_camp2:
  "check_demand F sample_db ''Camp2'' ''Excavator'' 20 25 2 15 = Inr sample_camp2_result"
  by (simp add: check_demand_def sample_simps sample_camp2_result_def)

lemma sample_camp2_spec_count: "spec_home_count sample_db ''Camp2'' ''Excavator'' 20 25 = 3"
  by (simp add: spec_home_count_def spec_substring_ci_def sample_db_def mk_equipment_def
        lower_def lower_char_def is_available_def)



lemma cafe_find_home: "find_home_ws cafe_db (''caf'' @ [CHR 0xE9]) = Some cafe_home"
  by (simp add: cafe_db_def cafe_home_def mk_workshop_def find_home_ws_def ilike_def lower_def
        lower_char_def)

lemma cafe_unmet:
  "check_demand exact_fp cafe_db (''caf'' @ [CHR 0xE9]) ''Excavator'' 10 20 1 15 = Inr cafe_result"
  by (simp add: check_demand_def cafe_db_def mk_workshop_def mk_equipment_def find_home_ws_def
        ilike_def lower_def lower_char_def equipment_query_def is_available_def float_simps
        cafe_result_def cafe_alt_bistro_def)

lemma near_antipode_a:
  "hav_a near_antipode_fp 61.4775236 (- 62.1450769) (- 61.4775234) 117.8549239 = 1 + 1 / 2 ^ 51"
  by (simp add: hav_a_def near_antipode_fp_def exact_fp_def)

lemma near_antipode_sqrt: "math_sqrt near_antipode_fp (1 + 1 / 2 ^ 51) = 1 + 1 / 2 ^ 52"
  by (simp add: near_antipode_fp_def exact_fp_def)

section \<open>Theorems\<close>

text \<open>
  C1. The availability predicate is a total boolean function of an equipment record and a
  closed window [a, b]. It is true exactly when the status is \<open>ReadyToUse\<close> and either one
  of the record's own dates is missing, or both are present as [s, t] and the closed
  intervals do not overlap, that is not (s <= b and a <= t). For a record whose status is
  not \<open>ReadyToUse\<close> it is false for every window.
\<close>

theorem is_available_iff:
  "is_available a b e =
     (status e = ''ReadyToUse'' \<and>
      (equipment.start_date e = None \<or> equipment.end_date e = None \<or>
       (\<exists>s t. equipment.start_date e = Some s \<and> equipment.end_date e = Some t \<and>
              \<not> (s \<le> b \<and> a \<le> t))))
   \<and> (status e \<noteq> ''ReadyToUse'' \<longrightarrow> \<not> is_available a b e)"
  by (auto simp: is_available_def split: option.splits)

theorem is_available_iff_witness:
  "is_available 20 25 (mk_equipment 4 ''Excavator'' ''Camp2'' ''ReadyToUse'' (Some 5) (Some 15))
   \<and> \<not> is_available 10 20 (mk_equipment 4 ''Excavator'' ''Camp2'' ''ReadyToUse'' (Some 5) (Some 15))
   \<and> is_available 10 20 (mk_equipment 2 ''excavator'' ''CAMP1'' ''ReadyToUse'' (Some 100) None)
   \<and> status (mk_equipment 5 ''Excavator'' ''Camp2'' ''UnderMaintenance'' None None) \<noteq> ''ReadyToUse''
   \<and> \<not> is_available 10 20 (mk_equipment 5 ''Excavator'' ''Camp2'' ''UnderMaintenance'' None None)"
  using
    is_available_iff [of 20 25 "mk_equipment 4 ''Excavator'' ''Camp2'' ''ReadyToUse'' (Some 5) (Some 15)"]
    is_available_iff [of 10 20 "mk_equipment 4 ''Excavator'' ''Camp2'' ''ReadyToUse'' (Some 5) (Some 15)"]
    is_available_iff [of 10 20 "mk_equipment 2 ''excavator'' ''CAMP1'' ''ReadyToUse'' (Some 100) None"]
    is_available_iff [of 10 20 "mk_equipment 5 ''Excavator'' ''Camp2'' ''UnderMaintenance'' None None"]
  by (simp add: mk_equipment_def)

text \<open>
  C2, as amended. For every request whose camp name resolves to a home workshop, the home
  available count of the result is the number of equipment rows whose camp name and whose
  equipment name each pass \<open>ilike\<close> with the requested string itself as the pattern, and
  which are available for the window; \<open>meets_requirement\<close> holds exactly when that count
  reaches the requested quantity. When neither requested string holds a \<open>%\<close> or a \<open>_\<close>,
  passing \<open>ilike\<close> is equality of the lower-cased names, so a name that merely contains
  the requested string is not counted.
\<close>

theorem home_count_ilike:
  assumes "find_home_ws d camp = Some hw"
    and "check_demand F d camp eqn sd ed qty rad = Inr r"
  shows "available (availability r) =
       int (length (filter (\<lambda>e. ilike (equipment.camp_name e) camp \<and>
                               ilike (equipment.equipment_name e) eqn \<and>
                               is_available sd ed e) (equipment_rows d))) \<and>
     meets_requirement (availability r) = (qty \<le> available (availability r)) \<and>
     (CHR ''%'' \<notin> set (camp @ eqn) \<and> CHR ''_'' \<notin> set (camp @ eqn) \<longrightarrow>
        available (availability r) =
          int (length (filter (\<lambda>e. lower (equipment.camp_name e) = lower camp \<and>
                                  lower (equipment.equipment_name e) = lower eqn \<and>
                                  is_available sd ed e) (equipment_rows d))))"
proof -
  from check_demand_Inr [OF assms(2)]
  have a: "available (availability r) = home_count d camp eqn sd ed"
    and m: "meets_requirement (availability r) = (qty \<le> home_count d camp eqn sd ed)"
    by blast+
  have "ilike c camp = (lower c = lower camp)" "ilike n eqn = (lower n = lower eqn)"
    if "CHR ''%'' \<notin> set (camp @ eqn)" "CHR ''_'' \<notin> set (camp @ eqn)" for c n
    using that by (simp_all add: ilike_plain)
  then show ?thesis
    by (simp add: a m home_count_ilike_eq)
qed

theorem home_count_ilike_witness:
  "find_home_ws sample_db ''camp1'' = Some sample_home \<and>
   check_demand exact_fp sample_db ''camp1'' ''EXCAVATOR'' 10 20 5 15 = Inr sample_unmet_result \<and>
   CHR ''%'' \<notin> set (''camp1'' @ ''EXCAVATOR'') \<and> CHR ''_'' \<notin> set (''camp1'' @ ''EXCAVATOR'') \<and>
   int (length (filter (\<lambda>e. ilike (equipment.camp_name e) ''camp1'' \<and>
                           ilike (equipment.equipment_name e) ''EXCAVATOR'' \<and>
                           is_available 10 20 e) (equipment_rows sample_db))) = 2 \<and>
   int (length (filter (\<lambda>e. lower (equipment.camp_name e) = lower ''camp1'' \<and>
                           lower (equipment.equipment_name e) = lower ''EXCAVATOR'' \<and>
                           is_available 10 20 e) (equipment_rows sample_db))) = 2"
  using home_count_ilike [OF sample_find_home sample_unmet] sample_find_home sample_unmet
  by (simp add: sample_unmet_result_def)

text \<open>
  C2 as first stated, with the substring test of the specification, fails: \<open>Camp2\<close> holds a
  free \<open>Big Excavator\<close>, which contains the requested \<open>Excavator\<close> and is not selected
  by the query. The result reports 2 available units, the substring count is 3.
\<close>

theorem home_count_substring_counterexample:
  "find_home_ws sample_db ''Camp2'' = Some (mk_workshop ''WS_002'' ''Camp2'' (Some 0) (Some 0)) \<and>
   check_demand exact_fp sample_db ''Camp2'' ''Excavator'' 20 25 2 15 = Inr sample_camp2_result \<and>
   available (availability sample_camp2_result) = 2 \<and>
   spec_home_count sample_db ''Camp2'' ''Excavator'' 20 25 = 3 \<and>
   available (availability sample_camp2_result)
     \<noteq> spec_home_count sample_db ''Camp2'' ''Excavator'' 20 25"
  by (simp add: sample_find_camp2 sample_camp2 sample_camp2_spec_count sample_camp2_result_def)

text \<open>
  C3. In every result of \<open>check_demand\<close> the alternatives are sorted ascending by their
  distance, two entries at the same distance stand in descending order of their
  \<open>ready_to_use\<close> count, and entries with the same distance and the same count keep the
  order in which the workshops were enumerated: nothing else breaks ties.
\<close>

theorem alternatives_sorted:
  assumes "check_demand F d camp eqn sd ed qty rad = Inr r"
  shows "sorted (map distance_km (alternatives r)) \<and>
    (\<forall>i j. i < j \<and> j < length (alternatives r) \<and>
           distance_km (alternatives r ! i) = distance_km (alternatives r ! j) \<longrightarrow>
           ready_to_use (counts (alternatives r ! j)) \<le> ready_to_use (counts (alternatives r ! i))) \<and>
    (\<forall>hw alts k. find_home_ws d camp = Some hw \<and> \<not> meets_requirement (availability r) \<and>
           build_alts F d hw camp eqn sd ed rad (workshop_rows d) [] = Inr alts \<longrightarrow>
           filter (\<lambda>x. alt_key x = k) (alternatives r) = filter (\<lambda>x. alt_key x = k) alts)"
proof -
  from check_demand_Inr [OF assms] obtain hw where hw: "find_home_ws d camp = Some hw"
    and m: "meets_requirement (availability r) = (qty \<le> home_count d camp eqn sd ed)"
    and c: "if qty \<le> home_count d camp eqn sd ed then alternatives r = []
      else \<exists>alts. build_alts F d hw camp eqn sd ed rad (workshop_rows d) [] = Inr alts \<and>
             alternatives r = sort_key alt_key alts"
    by blast
  have s: "sorted (map alt_key (alternatives r))"
    using c by (auto split: if_splits)
  have st: "filter (\<lambda>x. alt_key x = k) (alternatives r) = filter (\<lambda>x. alt_key x = k) alts"
    if "\<not> meets_requirement (availability r)"
      "build_alts F d hw camp eqn sd ed rad (workshop_rows d) [] = Inr alts" for k alts
    using that c m by (auto simp: sort_key_stable)
  show ?thesis
    using sorted_alt_key_distance [OF s] sorted_alt_key_ties [OF s] st hw by auto
qed

theorem alternatives_sorted_witness:
  "check_demand exact_fp sample_db ''camp1'' ''EXCAVATOR'' 10 20 5 15 = Inr sample_unmet_result \<and>
   sorted (map distance_km (alternatives sample_unmet_result)) \<and>
   (0::nat) < 1 \<and> 1 < length (alternatives sample_unmet_result) \<and>
   distance_km (alternatives sample_unmet_result ! 0)
     = distance_km (alternatives sample_unmet_result ! 1) \<and>
   ready_to_use (counts (alternatives sample_unmet_result ! 1))
     \<le> ready_to_use (counts (alternatives sample_unmet_result ! 0)) \<and>
   find_home_ws sample_db ''camp1'' = Some sample_home \<and>
   \<not> meets_requirement (availability sample_unmet_result) \<and>
   build_alts exact_fp sample_db sample_home ''camp1'' ''EXCAVATOR'' 10 20 15
     (workshop_rows sample_db) [] = Inr [sample_alt_camp2, sample_alt_camp4] \<and>
   filter (\<lambda>x. alt_key x = (0, - 2)) (alternatives sample_unmet_result) =
   filter (\<lambda>x. alt_key x = (0, - 2)) [sample_alt_camp2, sample_alt_camp4]"
proof -
  note t = alternatives_sorted [OF sample_unmet]
  have m: "\<not> meets_requirement (availability sample_unmet_result)"
    by (simp add: sample_unmet_result_def)
  from t sample_find_home m sample_unmet_loop
  have "filter (\<lambda>x. alt_key x = (0, - 2)) (alternatives sample_unmet_result) =
     filter (\<lambda>x. alt_key x = (0, - 2)) [sample_alt_camp2, sample_alt_camp4]"
    by blast
  moreover have "sorted (map distance_km (alternatives sample_unmet_result))"
    using t by blast
  ultimately show ?thesis
    using sample_unmet sample_find_home sample_unmet_loop
    by (simp add: sample_unmet_result_def sample_alt_camp4_def sample_alt_camp2_def)
qed



text \<open>
  C5. Every alternative entry comes from a workshop whose camp name differs from the
  requested one when both are lower-cased as \<open>str.lower\<close> does, whose distance to the home
  workshop's coordinates is known, and whose distance does not exceed the radius. When the
  demand is unmet the entries are exactly those of the workshops passing the three tests,
  one each; a workshop failing any test contributes none.
\<close>

theorem alternatives_candidates:
  assumes "check_demand F d camp eqn sd ed qty rad = Inr r"
  shows "\<exists>hw. find_home_ws d camp = Some hw \<and>
    (\<forall>x \<in> set (alternatives r). \<exists>ws \<in> set (workshop_rows d). \<exists>dst.
        str_lower (workshop.camp_name ws) \<noteq> str_lower camp \<and>
        haversine_km F (location_lat hw) (location_lon hw) (location_lat ws) (location_lon ws)
          = Inr (Some dst) \<and>
        dst \<le> rad \<and> x = alt_entry d eqn sd ed ws dst) \<and>
    (\<not> meets_requirement (availability r) \<longrightarrow>
       alternatives r =
         sort_key alt_key
           (map (\<lambda>ws. alt_entry d eqn sd ed ws
                   (known_km (haversine_km F (location_lat hw) (location_lon hw)
                                (location_lat ws) (location_lon ws))))
              (filter (\<lambda>ws. str_lower (workshop.camp_name ws) \<noteq> str_lower camp \<and>
                    (\<exists>dst. haversine_km F (location_lat hw) (location_lon hw)
                             (location_lat ws) (location_lon ws) = Inr (Some dst) \<and> dst \<le> rad))
                 (workshop_rows d))))"
proof -
  from check_demand_Inr [OF assms] obtain hw where hw: "find_home_ws d camp = Some hw"
    and m: "meets_requirement (availability r) = (qty \<le> home_count d camp eqn sd ed)"
    and c: "if qty \<le> home_count d camp eqn sd ed then alternatives r = []
      else \<exists>alts. build_alts F d hw camp eqn sd ed rad (workshop_rows d) [] = Inr alts \<and>
             alternatives r = sort_key alt_key alts"
    by blast
  let ?keep = "\<lambda>ws. str_lower (workshop.camp_name ws) \<noteq> str_lower camp \<and>
      (\<exists>dst. haversine_km F (location_lat hw) (location_lon hw)
               (location_lat ws) (location_lon ws) = Inr (Some dst) \<and> dst \<le> rad)"
  let ?entry = "\<lambda>ws. alt_entry d eqn sd ed ws
      (known_km (haversine_km F (location_lat hw) (location_lon hw)
                   (location_lat ws) (location_lon ws)))"
  have a: "set (alternatives r) \<subseteq> set (map ?entry (filter ?keep (workshop_rows d)))"
  proof (cases "qty \<le> home_count d camp eqn sd ed")
    case True
    with c show ?thesis by simp
  next
    case False
    with c obtain alts where
      b: "build_alts F d hw camp eqn sd ed rad (workshop_rows d) [] = Inr alts"
      and "alternatives r = sort_key alt_key alts"
      by auto
    with build_alts_Inr [OF b] show ?thesis
      by simp
  qed
  have b: "\<exists>ws \<in> set (workshop_rows d). \<exists>dst.
        str_lower (workshop.camp_name ws) \<noteq> str_lower camp \<and>
        haversine_km F (location_lat hw) (location_lon hw) (location_lat ws) (location_lon ws)
          = Inr (Some dst) \<and>
        dst \<le> rad \<and> x = alt_entry d eqn sd ed ws dst"
    if "x \<in> set (alternatives r)" for x
  proof -
    from that a obtain ws where ws: "ws \<in> set (workshop_rows d)" "?keep ws" "x = ?entry ws"
      by auto
    from ws(2) obtain dst where
      k: "haversine_km F (location_lat hw) (location_lon hw) (location_lat ws) (location_lon ws)
         = Inr (Some dst)" "dst \<le> rad"
      by blast
    then have "x = alt_entry d eqn sd ed ws dst"
      using ws(3) by (simp add: known_km_def)
    with ws k show ?thesis
      by blast
  qed
  have e: "alternatives r = sort_key alt_key (map ?entry (filter ?keep (workshop_rows d)))"
    if "\<not> meets_requirement (availability r)"
  proof -
    from that m c obtain alts where
      b: "build_alts F d hw camp eqn sd ed rad (workshop_rows d) [] = Inr alts"
      and "alternatives r = sort_key alt_key alts"
      by auto
    with build_alts_Inr [OF b] show ?thesis
      by simp
  qed
  show ?thesis
    using hw b e by blast
qed

theorem alternatives_candidates_witness:
  "check_demand exact_fp sample_db ''camp1'' ''EXCAVATOR'' 10 20 5 15 = Inr sample_unmet_result \<and>
   find_home_ws sample_db ''camp1'' = Some sample_home \<and>
   \<not> meets_requirement (availability sample_unmet_result) \<and>
   [sample_alt_camp4, sample_alt_camp2] =
     sort_key alt_key
       (map (\<lambda>ws. alt_entry sample_db ''EXCAVATOR'' 10 20 ws
               (known_km (haversine_km exact_fp (location_lat sample_home) (location_lon sample_home)
                            (location_lat ws) (location_lon ws))))
          (filter (\<lambda>ws. str_lower (workshop.camp_name ws) \<noteq> str_lower ''camp1'' \<and>
                (\<exists>dst. haversine_km exact_fp (location_lat sample_home) (location_lon sample_home)
                         (location_lat ws) (location_lon ws) = Inr (Some dst) \<and> dst \<le> 15))
             (workshop_rows sample_db))) \<and>
   check_demand exact_fp cafe_db (''caf'' @ [CHR 0xE9]) ''Excavator'' 10 20 1 15 = Inr cafe_result \<and>
   find_home_ws cafe_db (''caf'' @ [CHR 0xE9]) = Some cafe_home \<and>
   \<not> meets_requirement (availability cafe_result) \<and>
   [cafe_alt_bistro] =
     sort_key alt_key
       (map (\<lambda>ws. alt_entry cafe_db ''Excavator'' 10 20 ws
               (known_km (haversine_km exact_fp (location_lat cafe_home) (location_lon cafe_home)
                            (location_lat ws) (location_lon ws))))
          (filter (\<lambda>ws. str_lower (workshop.camp_name ws) \<noteq> str_lower (''caf'' @ [CHR 0xE9]) \<and>
                (\<exists>dst. haversine_km exact_fp (location_lat cafe_home) (location_lon cafe_home)
                         (location_lat ws) (location_lon ws) = Inr (Some dst) \<and> dst \<le> 15))
             (workshop_rows cafe_db)))"
  using alternatives_candidates [OF sample_unmet] sample_unmet sample_find_home
    alternatives_candidates [OF cafe_unmet] cafe_unmet cafe_find_home
  by (auto simp: sample_unmet_result_def cafe_result_def)




text \<open>
  C7. Whenever \<open>meets_requirement\<close> is true the alternatives list is empty: the search for
  alternative camps is not made. \<open>meets_requirement\<close> is true exactly when the available
  count reaches the requested quantity, so alternatives are computed, by the loop over all
  workshops followed by the sort, only when the home count is below the quantity.
\<close>

theorem met_no_alternatives:
  assumes "check_demand F d camp eqn sd ed qty rad = Inr r"
  shows "(meets_requirement (availability r) \<longrightarrow> alternatives r = []) \<and>
    meets_requirement (availability r) = (qty \<le> available (availability r)) \<and>
    (alternatives r \<noteq> [] \<longrightarrow> available (availability r) < qty) \<and>
    (\<not> meets_requirement (availability r) \<longrightarrow>
       (\<exists>hw alts. find_home_ws d camp = Some hw \<and>
          build_alts F d hw camp eqn sd ed rad (workshop_rows d) [] = Inr alts \<and>
          alternatives r = sort_key alt_key alts))"
proof -
  from check_demand_Inr [OF assms] obtain hw where hw: "find_home_ws d camp = Some hw"
    and a: "available (availability r) = home_count d camp eqn sd ed"
    and m: "meets_requirement (availability r) = (qty \<le> home_count d camp eqn sd ed)"
    and c: "if qty \<le> home_count d camp eqn sd ed then alternatives r = []
      else \<exists>alts. build_alts F d hw camp eqn sd ed rad (workshop_rows d) [] = Inr alts \<and>
             alternatives r = sort_key alt_key alts"
    by blast
  show ?thesis
    using hw a m c by (auto split: if_splits)
qed

theorem met_no_alternatives_witness:
  "check_demand exact_fp sample_db ''camp1'' ''EXCAVATOR'' 10 20 2 15 = Inr sample_met_result \<and>
   meets_requirement (availability sample_met_result) \<and>
   alternatives sample_met_result = [] \<and>
   check_demand exact_fp sample_db ''camp1'' ''EXCAVATOR'' 10 20 5 15 = Inr sample_unmet_result \<and>
   \<not> meets_requirement (availability sample_unmet_result) \<and>
   alternatives sample_unmet_result \<noteq> [] \<and>
   available (availability sample_unmet_result) < 5 \<and>
   find_home_ws sample_db ''camp1'' = Some sample_home \<and>
   build_alts exact_fp sample_db sample_home ''camp1'' ''EXCAVATOR'' 10 20 15
     (workshop_rows sample_db) [] = Inr [sample_alt_camp2, sample_alt_camp4] \<and>
   alternatives sample_unmet_result = sort_key alt_key [sample_alt_camp2, sample_alt_camp4]"
proof -
  have m: "meets_requirement (availability sample_met_result)"
    by (simp add: sample_met_result_def)
  have u: "\<not> meets_requirement (availability sample_unmet_result)"
      "alternatives sample_unmet_result \<noteq> []"
    by (simp_all add: sample_unmet_result_def)
  from met_no_alternatives [OF sample_met [of exact_fp]] m
  have "alternatives sample_met_result = []"
    by blast
  moreover from met_no_alternatives [OF sample_unmet] u
  have "available (availability sample_unmet_result) < 5"
    by blast
  moreover from met_no_alternatives [OF sample_unmet] u sample_find_home sample_unmet_loop
  have "alternatives sample_unmet_result = sort_key alt_key [sample_alt_camp2, sample_alt_camp4]"
    by auto
  ultimately show ?thesis
    using m u sample_met [of exact_fp] sample_unmet sample_find_home sample_unmet_loop by simp
qed

text \<open>
  C8. The distance calculator returns the unknown value \<open>None\<close> exactly when at least one
  of the four coordinates is absent, whatever the float operations return. With all four
  present and no rounding it returns the great-circle distance in kilometres. With the
  rounding of binary64 arithmetic it does not always return: for the near-antipodal pair
  (61.4775236, -62.1450769) and (-61.4775234, 117.8549239) the sum \<open>a\<close> comes out as
  \<open>1 + 2^-51\<close> and its square root as \<open>1 + 2^-52\<close>, above 1, and \<open>math.asin\<close> raises
  \<open>ValueError\<close>.
\<close>

theorem haversine_km_unknown_or_raises:
  "((haversine_km F lat1 lon1 lat2 lon2 = Inr None) =
      (lat1 = None \<or> lon1 = None \<or> lat2 = None \<or> lon2 = None)) \<and>
   haversine_km exact_fp (Some la1) (Some lo1) (Some la2) (Some lo2) =
     Inr (Some (great_circle_km la1 lo1 la2 lo2)) \<and>
   (hav_a F 61.4775236 (- 62.1450769) (- 61.4775234) 117.8549239 = 1 + 1 / 2 ^ 51 \<and>
    math_sqrt F (1 + 1 / 2 ^ 51) = 1 + 1 / 2 ^ 52 \<longrightarrow>
      haversine_km F (Some 61.4775236) (Some (- 62.1450769)) (Some (- 61.4775234))
        (Some 117.8549239) = Inl ValueError)"
proof -
  have none: "(haversine_km F lat1 lon1 lat2 lon2 = Inr None) =
      (lat1 = None \<or> lon1 = None \<or> lat2 = None \<or> lon2 = None)"
    by (simp add: haversine_km_def Let_def split: option.splits)
  have "2 * 6371 * arcsin (sqrt (hav_a exact_fp la1 lo1 la2 lo2))
      = 6371 * (2 * arcsin (sqrt (hav_a exact_fp la1 lo1 la2 lo2)))"
    by simp
  also have "\<dots> = 6371 * arccos (1 - 2 * hav_a exact_fp la1 lo1 la2 lo2)"
    using exact_hav_a_bounds [of la1 lo1 la2 lo2] by (simp only: two_arcsin_sqrt)
  also have "\<dots> = great_circle_km la1 lo1 la2 lo2"
    by (simp only: exact_hav_a_cosines great_circle_km_def)
  finally have exact: "haversine_km exact_fp (Some la1) (Some lo1) (Some la2) (Some lo2) =
     Inr (Some (great_circle_km la1 lo1 la2 lo2))"
    by (simp only: exact_haversine_km)
  have raises: "haversine_km F (Some 61.4775236) (Some (- 62.1450769)) (Some (- 61.4775234))
        (Some 117.8549239) = Inl ValueError"
    if h: "hav_a F 61.4775236 (- 62.1450769) (- 61.4775234) 117.8549239 = 1 + 1 / 2 ^ 51"
      "math_sqrt F (1 + 1 / 2 ^ 51) = 1 + 1 / 2 ^ 52"
  proof -
    from h have "math_sqrt F (hav_a F 61.4775236 (- 62.1450769) (- 61.4775234) 117.8549239)
        = 1 + 1 / 2 ^ 52"
      by (simp only:)
    then have "1 < math_sqrt F (hav_a F 61.4775236 (- 62.1450769) (- 61.4775234) 117.8549239)"
      by simp
    then show ?thesis
      by (rule haversine_km_asin_raises)
  qed
  show ?thesis
    using none exact raises by blast
qed

theorem haversine_km_unknown_or_raises_witness:
  "haversine_km near_antipode_fp (Some 0) None (Some 0) (Some 180) = Inr None \<and>
   haversine_km exact_fp (Some 0) (Some 0) (Some 0) (Some 180) = Inr (Some (6371 * pi)) \<and>
   great_circle_km 0 0 0 180 = 6371 * pi \<and>
   hav_a near_antipode_fp 61.4775236 (- 62.1450769) (- 61.4775234) 117.8549239 = 1 + 1 / 2 ^ 51 \<and>
   math_sqrt near_antipode_fp (1 + 1 / 2 ^ 51) = 1 + 1 / 2 ^ 52 \<and>
   haversine_km near_antipode_fp (Some 61.4775236) (Some (- 62.1450769)) (Some (- 61.4775234))
     (Some 117.8549239) = Inl ValueError"
proof -
  note t = haversine_km_unknown_or_raises
    [of near_antipode_fp "Some 0" None "Some 0" "Some 180" 0 0 0 180]
  have e: "haversine_km exact_fp (Some 0) (Some 0) (Some 0) (Some 180) = Inr (Some (6371 * pi))"
    by (simp add: haversine_km_def hav_a_def exact_fp_def radians_def)
  with t have "great_circle_km 0 0 0 180 = 6371 * pi"
    by simp
  moreover from t near_antipode_a near_antipode_sqrt
  have "haversine_km near_antipode_fp (Some 61.4775236) (Some (- 62.1450769))
      (Some (- 61.4775234)) (Some 117.8549239) = Inl ValueError"
    by blast
  moreover from t have "haversine_km near_antipode_fp (Some 0) None (Some 0) (Some 180) = Inr None"
    by simp
  ultimately show ?thesis
    using e near_antipode_a near_antipode_sqrt by simp
qed

text \<open>
  C9. The distance from a coordinate pair with both values present to itself is exactly 0,
  and the distance between two pairs with all values present does not depend on their
  order. Both hold without rounding, and with any float operations that keep the signs,
  where the two orders also raise together.
\<close>

theorem haversine_km_zero_sym:
  "haversine_km exact_fp (Some la) (Some lo) (Some la) (Some lo) = Inr (Some 0) \<and>
   haversine_km exact_fp (Some la1) (Some lo1) (Some la2) (Some lo2) =
     haversine_km exact_fp (Some la2) (Some lo2) (Some la1) (Some lo1) \<and>
   (sign_symmetric F \<longrightarrow>
      haversine_km F (Some la) (Some lo) (Some la) (Some lo) = Inr (Some 0) \<and>
      haversine_km F (Some la1) (Some lo1) (Some la2) (Some lo2) =
        haversine_km F (Some la2) (Some lo2) (Some la1) (Some lo1))"
proof -
  have gen: "haversine_km G (Some la) (Some lo) (Some la) (Some lo) = Inr (Some 0) \<and>
      haversine_km G (Some la1) (Some lo1) (Some la2) (Some lo2) =
        haversine_km G (Some la2) (Some lo2) (Some la1) (Some lo1)"
    if g: "sign_symmetric G" for G
  proof -
    from g have z: "math_sqrt G 0 = 0" "math_asin G 0 = 0" "fp_mul G x 0 = 0" for x
      unfolding sign_symmetric_def by blast+
    have "haversine_km G (Some la) (Some lo) (Some la) (Some lo) = Inr (Some 0)"
      by (simp add: haversine_km_def Let_def sign_symmetric_hav_a_self [OF g] z)
    moreover have "haversine_km G (Some la1) (Some lo1) (Some la2) (Some lo2) =
        haversine_km G (Some la2) (Some lo2) (Some la1) (Some lo1)"
      by (simp add: haversine_km_def sign_symmetric_hav_a [OF g, of la1 lo1 la2 lo2])
    ultimately show ?thesis
      by simp
  qed
  from gen [OF sign_symmetric_exact] gen [of F] show ?thesis
    by blast
qed

theorem haversine_km_zero_sym_witness:
  "sign_symmetric exact_fp \<and>
   haversine_km exact_fp (Some 10) (Some 20) (Some 10) (Some 20) = Inr (Some 0) \<and>
   haversine_km exact_fp (Some 0) (Some 180) (Some 0) (Some 0) = Inr (Some (6371 * pi))"
proof -
  have "haversine_km exact_fp (Some 0) (Some 0) (Some 0) (Some 180) = Inr (Some (6371 * pi))"
    by (simp add: haversine_km_def hav_a_def exact_fp_def radians_def)
  then show ?thesis
    using haversine_km_zero_sym [of 10 20 0 0 0 180 exact_fp] sign_symmetric_exact by simp
qed

text \<open>
  C10. If the home workshop found for the requested camp lacks its latitude or its
  longitude, the request succeeds with an empty alternatives list, whatever the radius,
  the other workshops and the equipment: every distance is unknown and every candidate
  is skipped.
\<close>

theorem missing_home_coords_no_alternatives:
  assumes "find_home_ws d camp = Some hw"
    and "location_lat hw = None \<or> location_lon hw = None"
  shows "\<exists>r. check_demand F d camp eqn sd ed qty rad = Inr r \<and> alternatives r = []"
proof (cases "qty \<le> home_count d camp eqn sd ed")
  case True
  then show ?thesis
    by (simp add: check_demand_met [OF assms(1) True])
next
  case False
  have "build_alts F d hw camp eqn sd ed rad (workshop_rows d) [] = Inr []"
    using assms(2) by (rule build_alts_no_home_coords)
  then show ?thesis
    by (simp add: check_demand_unmet [OF assms(1) False])
qed

theorem missing_home_coords_no_alternatives_witness:
  "find_home_ws sample_db ''Camp3'' = Some (mk_workshop ''WS_003'' ''Camp3'' None None) \<and>
   location_lat (mk_workshop ''WS_003'' ''Camp3'' None None) = None \<and>
   check_demand exact_fp sample_db ''Camp3'' ''Excavator'' 10 20 1 15 = Inr sample_nocoords_result \<and>
   \<not> meets_requirement (availability sample_nocoords_result) \<and>
   alternatives sample_nocoords_result = []"
proof -
  have c: "location_lat (mk_workshop ''WS_003'' ''Camp3'' None None) = None \<or>
      location_lon (mk_workshop ''WS_003'' ''Camp3'' None None) = None"
    by (simp add: mk_workshop_def)
  from missing_home_coords_no_alternatives
    [OF sample_find_camp3 c, of exact_fp "''Excavator''" 10 20 1 15]
  have "alternatives sample_nocoords_result = []"
    by (simp add: sample_nocoords)
  then show ?thesis
    using sample_find_camp3 sample_nocoords [of exact_fp]
    by (simp add: mk_workshop_def sample_nocoords_result_def)
qed

end
